theory Spec2Isabelle
  imports Complex_Main "HOL-Library.Multiset"
begin

section \<open>Values, documents and the store\<close>

text \<open>
  The server is one Express application over three Mongoose collections. A JavaScript
  number is a \<open>real\<close> (the rounding of doubles is not modelled), a valid \<open>Date\<close> is its
  time value in milliseconds (an \<open>int\<close>), and an invalid \<open>Date\<close> or a \<open>NaN\<close> is \<open>None\<close>
  where a library function can produce one.
  Values handed to \<open>res.json\<close> are trees of \<open>jsvalue\<close>; an object keeps its keys in
  the order the source writes them.
\<close>

type_synonym date = int

datatype jsvalue =
    JNull
  | JNum real
  | JStr string
  | JDate date
  | JOid nat
  | JArr "jsvalue list"
  | JObj "(string \<times> jsvalue) list"

text \<open>hiveSchema, cropSchema and userSchema (server.js, lines 25-66).\<close>

record hive =
  hiveId :: string
  datePlaced :: date
  latitude :: real
  longitude :: real
  numColonies :: real
  dateCreated :: date

record location =
  type :: string
  coordinates :: "real list"

record crop =
  name :: string
  floweringStart :: date
  floweringEnd :: date
  recommendedHiveDensity :: real
  location :: location
  cropCreated :: date

record user =
  uid :: nat
  username :: string
  password :: string
  role :: string

text \<open>
  The database: each collection is the list of its documents in insertion order. The
  operations of the persistence engine always complete in this model; a handler's
  \<open>catch\<close> branch is reached where a schema cast of the document fails.
\<close>

record store =
  users :: "user list"
  hives :: "hive list"
  crops :: "crop list"

subsection \<open>External collaborators\<close>

text \<open>
  The libraries the handlers call are parameters of the model: the validators of
  express-validator, the conversions of the JavaScript runtime and of Mongoose, bcrypt,
  jsonwebtoken and the spherical distance of the 2dsphere index (in metres).
  \<open>castString\<close> is what Mongoose makes of a value that is not a string on a required
  String path of a document (\<open>None\<close> when the document is refused), and \<open>filterString\<close>
  tells whether the filter \<open>{path: v}\<close>, for a \<open>v\<close> that is not a string, selects a document
  whose path holds the given string.
\<close>

datatype jwt_error = TokenMalformed | TokenExpired | TokenSignatureInvalid

text \<open>
  A value as a handler takes it from \<open>req.body\<close>: \<open>undefined\<close>, a string, or a JSON value
  that is not a string (a number, a boolean, \<open>null\<close>, an array or an object).
\<close>

datatype raw = Undefined | Str string | NonStr jsvalue

record lib =
  isFloat :: "string \<Rightarrow> real option \<Rightarrow> real option \<Rightarrow> bool"
  isInt :: "string \<Rightarrow> int option \<Rightarrow> bool"
  isISO8601 :: "string \<Rightarrow> bool"
  parseFloat :: "string \<Rightarrow> real option"
  parseInt :: "string \<Rightarrow> int option"
  newDate :: "string \<Rightarrow> date option"
  castNumber :: "string \<Rightarrow> real option"
  castString :: "jsvalue \<Rightarrow> string option"
  filterString :: "raw \<Rightarrow> string \<Rightarrow> bool"
  bcrypt_hash :: "string \<Rightarrow> string \<Rightarrow> string"
  bcrypt_compare :: "string \<Rightarrow> string \<Rightarrow> bool"
  jwt_sign :: "jsvalue \<Rightarrow> string \<Rightarrow> string \<Rightarrow> date \<Rightarrow> string"
  jwt_verify :: "string \<Rightarrow> string \<Rightarrow> date \<Rightarrow> jwt_error + jsvalue"
  geoDistance :: "real list \<Rightarrow> real list \<Rightarrow> real"

text \<open>
  What one request sees of the process: the clock (\<open>Date.now()\<close>), the salt that
  \<open>bcrypt.genSalt(10)\<close> draws, and \<open>process.env.JWT_SECRET\<close>.
\<close>

record env =
  now :: date
  salt :: string
  JWT_SECRET :: string

subsection \<open>Requests and responses\<close>

text \<open>
  A request carries its Authorization header and its parameters (\<open>req.body\<close> of a POST,
  \<open>req.query\<close> of a GET) by name. A field is the string express-validator validates; a
  JSON number of a body is its decimal text.

  The authentication routes hand the values of the body to bcrypt and to Mongoose as
  they are, and their validators (\<open>check\<close>) read every location of the request. For
  them the request also tells which fields of the body are not JSON strings, with the
  value (\<open>nonstring\<close>; \<open>params\<close> holds the string form), and what the other locations
  that \<open>check\<close> reads, the headers and the query string, hold under the name of a field
  (\<open>elsewhere\<close>). The hive and crop routes are modelled on the string form of the body.
\<close>

record request =
  authorization :: "string option"
  params :: "string \<rightharpoonup> string"
  nonstring :: "string \<rightharpoonup> jsvalue"
  elsewhere :: "string \<Rightarrow> string list"

datatype content =
    Json jsvalue
  | Csv "string list" "jsvalue option list list"
  | Html string

record response =
  status :: nat
  content :: content

definition json :: "nat \<Rightarrow> jsvalue \<Rightarrow> response" where
  "json st v = \<lparr> status = st, content = Json v \<rparr>"

definition err :: "nat \<Rightarrow> string \<Rightarrow> response" where
  "err st msg = json st (JObj [(''error'', JStr msg)])"

section \<open>Middleware\<close>

text \<open>\<open>String.prototype.split\<close> with a one-character separator.\<close>

fun split :: "char \<Rightarrow> string \<Rightarrow> string list" where
  "split c [] = [[]]"
| "split c (x # xs) =
     (if x = c then [] # split c xs
      else (case split c xs of [] \<Rightarrow> [[x]] | y # ys \<Rightarrow> (x # y) # ys))"

definition index :: "'a list \<Rightarrow> nat \<Rightarrow> 'a option" where
  "index xs i = (if i < length xs then Some (xs ! i) else None)"

text \<open>
  \<open>authHeader && authHeader.split(' ')[1]\<close>, then \<open>!token\<close>: the result is \<open>None\<close> when
  the value is falsy (no header, an empty header, no second part or an empty one).
\<close>

definition bearer :: "request \<Rightarrow> string option" where
  "bearer req =
     (case authorization req of
        None \<Rightarrow> None
      | Some authHeader \<Rightarrow>
          if authHeader = [] then None
          else (case index (split CHR '' '' authHeader) 1 of
                  None \<Rightarrow> None
                | Some token \<Rightarrow> if token = [] then None else Some token))"

text \<open>
  authenticateToken (lines 68-78). \<open>next\<close> is the rest of the route's chain, given the
  decoded payload that the middleware stores in \<open>req.user\<close>.
\<close>

definition authenticateToken ::
  "lib \<Rightarrow> env \<Rightarrow> request \<Rightarrow> store \<Rightarrow> (jsvalue \<Rightarrow> response \<times> store) \<Rightarrow> response \<times> store" where
  "authenticateToken L e req s next =
     (case bearer req of
        None \<Rightarrow> (err 401 ''Access token required'', s)
      | Some token \<Rightarrow>
          (case jwt_verify L token (JWT_SECRET e) (now e) of
             Inl _ \<Rightarrow> (err 403 ''Invalid token'', s)
           | Inr user \<Rightarrow> next user))"

text \<open>Property access on a JavaScript object: the first pair with the key.\<close>

fun property :: "jsvalue \<Rightarrow> string \<Rightarrow> jsvalue option" where
  "property (JObj kvs) k = map_of kvs k"
| "property _ k = None"

text \<open>requireAdmin (lines 81-86).\<close>

definition requireAdmin :: "jsvalue \<Rightarrow> store \<Rightarrow> response \<times> store \<Rightarrow> response \<times> store" where
  "requireAdmin user s next =
     (if property user ''role'' \<noteq> Some (JStr ''admin'')
      then (err 403 ''Admin access required'', s)
      else next)"

section \<open>Validation\<close>

text \<open>
  A validator of express-validator runs on the string form of the field, the empty
  string for a field that is absent. \<open>validationResult(req).array()\<close> is modelled by the
  names of the fields whose validators failed, one entry per failing validator in the
  order of the chain.
\<close>

definition str :: "string option \<Rightarrow> string" where
  "str v = (case v of None \<Rightarrow> [] | Some s \<Rightarrow> s)"

definition check :: "string \<Rightarrow> bool \<Rightarrow> string list" where
  "check field ok = (if ok then [] else [field])"

definition notEmpty :: "string option \<Rightarrow> bool" where
  "notEmpty v = (str v \<noteq> [])"

definition isLength :: "nat \<Rightarrow> string option \<Rightarrow> bool" where
  "isLength m v = (m \<le> length (str v))"

definition isIn :: "string list \<Rightarrow> string option \<Rightarrow> bool" where
  "isIn vs v = (str v \<in> set vs)"

definition optional :: "string option \<Rightarrow> bool \<Rightarrow> bool" where
  "optional v ok = (v = None \<or> ok)"

text \<open>
  \<open>check(field)\<close> selects the field in the body, the headers and the query string (this
  application fills neither \<open>req.cookies\<close> nor \<open>req.params\<close>). Every location that holds
  a value must pass; when none does, the validator runs once, on \<open>undefined\<close>.
\<close>

definition instances :: "request \<Rightarrow> string \<Rightarrow> string list" where
  "instances req field =
     (case params req field of None \<Rightarrow> [] | Some v \<Rightarrow> [v]) @ elsewhere req field"

definition checked :: "request \<Rightarrow> string \<Rightarrow> (string option \<Rightarrow> bool) \<Rightarrow> string list" where
  "checked req field validator =
     (if instances req field = [] then check field (validator None)
      else concat (map (\<lambda>v. check field (validator (Some v))) (instances req field)))"

text \<open>The value that \<open>const { field } = req.body\<close> binds.\<close>

definition raw :: "request \<Rightarrow> string \<Rightarrow> raw" where
  "raw req field =
     (case params req field of
        None \<Rightarrow> Undefined
      | Some v \<Rightarrow> (case nonstring req field of None \<Rightarrow> Str v | Some j \<Rightarrow> NonStr j))"

definition invalid :: "string list \<Rightarrow> response" where
  "invalid errors = json 400 (JObj [(''errors'', JArr (map JStr errors))])"

text \<open>Conversions of a raw field: \<open>undefined\<close> gives \<open>NaN\<close> or an invalid date.\<close>

definition parse_Float :: "lib \<Rightarrow> string option \<Rightarrow> real option" where
  "parse_Float L v = (case v of None \<Rightarrow> None | Some s \<Rightarrow> parseFloat L s)"

definition parse_Int :: "lib \<Rightarrow> string option \<Rightarrow> int option" where
  "parse_Int L v = (case v of None \<Rightarrow> None | Some s \<Rightarrow> parseInt L s)"

definition new_Date :: "lib \<Rightarrow> string option \<Rightarrow> date option" where
  "new_Date L v = (case v of None \<Rightarrow> None | Some s \<Rightarrow> newDate L s)"

definition cast_Number :: "lib \<Rightarrow> string option \<Rightarrow> real option" where
  "cast_Number L v = (case v of None \<Rightarrow> None | Some s \<Rightarrow> castNumber L s)"

text \<open>\<open>x || d\<close> on a number: \<open>NaN\<close> and zero are falsy.\<close>

definition or_else :: "'a::zero option \<Rightarrow> 'a \<Rightarrow> 'a" where
  "or_else v d = (case v of None \<Rightarrow> d | Some x \<Rightarrow> if x = 0 then d else x)"

text \<open>The truthiness of a raw field: absent and empty strings are falsy.\<close>

definition truthy :: "string option \<Rightarrow> bool" where
  "truthy v = (case v of None \<Rightarrow> False | Some s \<Rightarrow> s \<noteq> [])"

section \<open>Authentication routes\<close>

definition server_error :: response where
  "server_error = err 500 ''Server error''"

text \<open>\<open>User.findOne({ username })\<close>: equality on a string, the engine's answer otherwise.\<close>

definition findUser :: "string \<Rightarrow> store \<Rightarrow> user option" where
  "findUser n s = find (\<lambda>u. username u = n) (users s)"

definition findOne :: "lib \<Rightarrow> raw \<Rightarrow> store \<Rightarrow> user option" where
  "findOne L v s =
     (case v of
        Str n \<Rightarrow> findUser n s
      | _ \<Rightarrow> find (\<lambda>u. filterString L v (username u)) (users s))"

text \<open>
  The cast of a value to a required String path when the document is saved: a string
  is kept, \<open>undefined\<close> fails the \<open>required\<close> validator, anything else is Mongoose's.
\<close>

definition castPath :: "lib \<Rightarrow> raw \<Rightarrow> string option" where
  "castPath L v =
     (case v of Undefined \<Rightarrow> None | Str x \<Rightarrow> Some x | NonStr j \<Rightarrow> castString L j)"

text \<open>
  \<open>user.save()\<close>: the unique index on username refuses a second document with the name.
  The new document's \<open>_id\<close> is fresh.
\<close>

definition saveUser :: "string \<Rightarrow> string \<Rightarrow> string \<Rightarrow> store \<Rightarrow> store option" where
  "saveUser n pw r s =
     (if n \<in> set (map username (users s)) then None
      else Some (s\<lparr>users := users s @
             [\<lparr> uid = length (users s), username = n, password = pw, role = r \<rparr>]\<rparr>))"

text \<open>
  \<open>new User({ username, password: hashedPassword, role })\<close> and \<open>user.save()\<close>, with the
  casts of userSchema and the \<open>enum\<close> of role.
\<close>

definition newUser :: "lib \<Rightarrow> raw \<Rightarrow> string \<Rightarrow> raw \<Rightarrow> store \<Rightarrow> store option" where
  "newUser L u hashedPassword v s =
     (case castPath L u of None \<Rightarrow> None | Some n \<Rightarrow>
     (case castPath L v of None \<Rightarrow> None | Some r \<Rightarrow>
        if r \<in> set [''beekeeper'', ''admin''] then saveUser n hashedPassword r s else None))"

text \<open>
  POST /auth/register (lines 215-241). \<open>bcrypt.hash\<close> throws on a password that is not
  a string, and a document that Mongoose refuses rejects \<open>save()\<close>: the handler's \<open>catch\<close>
  answers both with 500.
\<close>

definition register_errors :: "request \<Rightarrow> string list" where
  "register_errors req =
     checked req ''username'' notEmpty @
     checked req ''password'' (isLength 6) @
     checked req ''role'' (isIn [''beekeeper'', ''admin''])"

definition register :: "lib \<Rightarrow> env \<Rightarrow> request \<Rightarrow> store \<Rightarrow> response \<times> store" where
  "register L e req s =
     (let errors = register_errors req in
      if errors \<noteq> [] then (invalid errors, s)
      else
        let username = raw req ''username'';
            password = raw req ''password'';
            role = raw req ''role''
        in (case findOne L username s of
              Some existingUser \<Rightarrow> (err 400 ''Username already exists'', s)
            | None \<Rightarrow>
                (case password of
                   Str pw \<Rightarrow>
                     let hashedPassword = bcrypt_hash L pw (salt e) in
                     (case newUser L username hashedPassword role s of
                        None \<Rightarrow> (server_error, s)
                      | Some s' \<Rightarrow>
                          (json 201 (JObj [(''message'', JStr ''User registered successfully'')]),
                           s'))
                 | _ \<Rightarrow> (server_error, s))))"

text \<open>
  POST /auth/login (lines 265-296). \<open>bcrypt.compare\<close> throws on a password that is not a
  string; the handler's \<open>catch\<close> answers 500.
\<close>

definition login_errors :: "request \<Rightarrow> string list" where
  "login_errors req =
     checked req ''username'' notEmpty @
     checked req ''password'' notEmpty"

definition login :: "lib \<Rightarrow> env \<Rightarrow> request \<Rightarrow> store \<Rightarrow> response \<times> store" where
  "login L e req s =
     (let errors = login_errors req in
      if errors \<noteq> [] then (invalid errors, s)
      else
        let username = raw req ''username'';
            password = raw req ''password''
        in (case findOne L username s of
              None \<Rightarrow> (err 400 ''Invalid credentials'', s)
            | Some user \<Rightarrow>
                (case password of
                   Str pw \<Rightarrow>
                     if \<not> bcrypt_compare L pw (user.password user)
                     then (err 400 ''Invalid credentials'', s)
                     else
                       let payload = JObj [(''id'', JOid (uid user)),
                                           (''username'', JStr (user.username user)),
                                           (''role'', JStr (role user)),
                                           (''syncToken'', JNum (of_int (now e)))];
                           token = jwt_sign L payload (JWT_SECRET e) ''1h'' (now e)
                       in (json 200 (JObj [(''token'', JStr token),
                                           (''syncToken'', JNum (of_int (now e)))]), s)
                 | _ \<Rightarrow> (server_error, s))))"

section \<open>Hive logs\<close>

definition hive_json :: "hive \<Rightarrow> jsvalue" where
  "hive_json h =
     JObj [(''hiveId'', JStr (hiveId h)),
           (''datePlaced'', JDate (datePlaced h)),
           (''latitude'', JNum (latitude h)),
           (''longitude'', JNum (longitude h)),
           (''numColonies'', JNum (numColonies h)),
           (''dateCreated'', JDate (dateCreated h))]"

text \<open>
  \<open>new Hive({...})\<close> with the casts of hiveSchema at \<open>save()\<close>: every path is required, a
  Date path refuses an invalid date and a Number path refuses what is no number.
  \<open>dateCreated\<close> defaults to \<open>Date.now\<close>.
\<close>

definition newHive ::
  "lib \<Rightarrow> env \<Rightarrow> string option \<Rightarrow> date option \<Rightarrow> string option \<Rightarrow> string option \<Rightarrow>
     string option \<Rightarrow> hive option" where
  "newHive L e i d la lo n =
     (case i of None \<Rightarrow> None | Some i' \<Rightarrow>
     (case d of None \<Rightarrow> None | Some d' \<Rightarrow>
     (case cast_Number L la of None \<Rightarrow> None | Some la' \<Rightarrow>
     (case cast_Number L lo of None \<Rightarrow> None | Some lo' \<Rightarrow>
     (case cast_Number L n of None \<Rightarrow> None | Some n' \<Rightarrow>
        Some \<lparr> hiveId = i', datePlaced = d', latitude = la', longitude = lo',
               numColonies = n', dateCreated = now e \<rparr>)))))"

text \<open>\<open>hive.save()\<close>: the unique index on hiveId refuses a duplicate.\<close>

definition saveHive :: "hive \<Rightarrow> store \<Rightarrow> store option" where
  "saveHive h s =
     (if hiveId h \<in> set (map hiveId (hives s)) then None
      else Some (s\<lparr>hives := hives s @ [h]\<rparr>))"

definition findHive :: "string \<Rightarrow> store \<Rightarrow> hive option" where
  "findHive i s = find (\<lambda>h. hiveId h = i) (hives s)"

text \<open>POST /api/hives (lines 319-350).\<close>

definition addHive_errors :: "lib \<Rightarrow> request \<Rightarrow> string list" where
  "addHive_errors L req =
     check ''hiveId'' (notEmpty (params req ''hiveId'')) @
     check ''datePlaced'' (isISO8601 L (str (params req ''datePlaced''))) @
     check ''latitude'' (isFloat L (str (params req ''latitude'')) (Some (- 90)) (Some 90)) @
     check ''longitude'' (isFloat L (str (params req ''longitude'')) (Some (- 180)) (Some 180)) @
     check ''numColonies'' (isInt L (str (params req ''numColonies'')) (Some 1))"

definition addHive_body :: "lib \<Rightarrow> env \<Rightarrow> request \<Rightarrow> store \<Rightarrow> response \<times> store" where
  "addHive_body L e req s =
     (let errors = addHive_errors L req in
      if errors \<noteq> [] then (invalid errors, s)
      else
        (case findHive (str (params req ''hiveId'')) s of
           Some existingHive \<Rightarrow> (err 400 ''hiveId must be unique'', s)
         | None \<Rightarrow>
             (case newHive L e (params req ''hiveId'') (new_Date L (params req ''datePlaced''))
                     (params req ''latitude'') (params req ''longitude'')
                     (params req ''numColonies'') of
                None \<Rightarrow> (server_error, s)
              | Some hive \<Rightarrow>
                  (case saveHive hive s of
                     None \<Rightarrow> (server_error, s)
                   | Some s' \<Rightarrow>
                       (json 201 (JObj [(''message'', JStr ''Hive log added successfully''),
                                        (''hive'', hive_json hive)]), s')))))"

definition addHive :: "lib \<Rightarrow> env \<Rightarrow> request \<Rightarrow> store \<Rightarrow> response \<times> store" where
  "addHive L e req s = authenticateToken L e req s (\<lambda>user. addHive_body L e req s)"

text \<open>
  The filter \<open>queryObj\<close> of GET /api/hives: \<open>$gte\<close> and \<open>$lte\<close> on datePlaced, each
  present only when its parameter is truthy.
\<close>

definition matches :: "date option \<Rightarrow> date option \<Rightarrow> hive \<Rightarrow> bool" where
  "matches gte lte h =
     ((case gte of None \<Rightarrow> True | Some a \<Rightarrow> a \<le> datePlaced h) \<and>
      (case lte of None \<Rightarrow> True | Some b \<Rightarrow> datePlaced h \<le> b))"

text \<open>\<open>Hive.countDocuments(queryObj)\<close>.\<close>

definition countDocuments :: "date option \<Rightarrow> date option \<Rightarrow> store \<Rightarrow> nat" where
  "countDocuments gte lte s = length (filter (matches gte lte) (hives s))"

text \<open>
  \<open>Hive.find(queryObj).skip(k).limit(n).sort({ datePlaced: -1 })\<close>: the engine sorts,
  then skips, then limits, whatever the order of the calls. Equal dates keep their
  insertion order. A negative skip is refused; a limit of zero is no limit and a
  negative one counts as its absolute value.
\<close>

definition findHives :: "date option \<Rightarrow> date option \<Rightarrow> int \<Rightarrow> int \<Rightarrow> store \<Rightarrow> hive list option" where
  "findHives gte lte k n s =
     (let sorted = sort_key (\<lambda>h. - datePlaced h) (filter (matches gte lte) (hives s)) in
      if k < 0 then None
      else if n = 0 then Some (drop (nat k) sorted)
      else Some (take (nat \<bar>n\<bar>) (drop (nat k) sorted)))"

text \<open>
  A bound of the filter: \<open>None\<close> when the parameter is falsy, else the date that
  \<open>new Date\<close> gives, which may be invalid.
\<close>

definition bound :: "lib \<Rightarrow> string option \<Rightarrow> date option option" where
  "bound L v = (if truthy v then Some (new_Date L v) else None)"

text \<open>GET /api/hives (lines 386-409). An invalid date in the filter fails the cast of
  the query, which the handler's \<open>catch\<close> answers.\<close>

definition listHives_body :: "lib \<Rightarrow> request \<Rightarrow> store \<Rightarrow> response \<times> store" where
  "listHives_body L req s =
     (let page = or_else (parse_Int L (params req ''page'')) 1;
          limit = or_else (parse_Int L (params req ''limit'')) 10;
          startDate = bound L (params req ''startDate'');
          endDate = bound L (params req ''endDate'')
      in if startDate = Some None \<or> endDate = Some None then (server_error, s)
         else
           let gte = (case startDate of None \<Rightarrow> None | Some d \<Rightarrow> d);
               lte = (case endDate of None \<Rightarrow> None | Some d \<Rightarrow> d)
           in (case findHives gte lte ((page - 1) * limit) limit s of
                 None \<Rightarrow> (server_error, s)
               | Some hives' \<Rightarrow>
                   let count = countDocuments gte lte s in
                   (json 200 (JObj [(''hives'', JArr (map hive_json hives')),
                                    (''total'', JNum (of_nat count)),
                                    (''page'', JNum (of_int page)),
                                    (''pages'', JNum (of_int \<lceil>real count / of_int limit\<rceil>))]), s)))"

definition listHives :: "lib \<Rightarrow> env \<Rightarrow> request \<Rightarrow> store \<Rightarrow> response \<times> store" where
  "listHives L e req s = authenticateToken L e req s (\<lambda>user. listHives_body L req s)"

section \<open>Crop calendar\<close>

definition crop_json :: "crop \<Rightarrow> jsvalue" where
  "crop_json c =
     JObj [(''name'', JStr (name c)),
           (''floweringStart'', JDate (floweringStart c)),
           (''floweringEnd'', JDate (floweringEnd c)),
           (''recommendedHiveDensity'', JNum (recommendedHiveDensity c)),
           (''location'', JObj [(''type'', JStr (type (location c))),
                                (''coordinates'', JArr (map JNum (coordinates (location c))))]),
           (''dateCreated'', JDate (cropCreated c))]"

text \<open>\<open>a >= b\<close> on two Dates: false when either is invalid.\<close>

definition date_ge :: "date option \<Rightarrow> date option \<Rightarrow> bool" where
  "date_ge a b = (case a of None \<Rightarrow> False | Some x \<Rightarrow> (case b of None \<Rightarrow> False | Some y \<Rightarrow> y \<le> x))"

text \<open>
  \<open>new Crop({...})\<close> with the casts of cropSchema at \<open>save()\<close>; a coordinate that is
  \<open>NaN\<close> fails the cast of the array.
\<close>

definition newCrop ::
  "lib \<Rightarrow> env \<Rightarrow> string option \<Rightarrow> date option \<Rightarrow> date option \<Rightarrow> string option \<Rightarrow>
     real option list \<Rightarrow> crop option" where
  "newCrop L e n fs fe d cs =
     (case n of None \<Rightarrow> None | Some n' \<Rightarrow>
     (case fs of None \<Rightarrow> None | Some fs' \<Rightarrow>
     (case fe of None \<Rightarrow> None | Some fe' \<Rightarrow>
     (case cast_Number L d of None \<Rightarrow> None | Some d' \<Rightarrow>
     (case those cs of None \<Rightarrow> None | Some cs' \<Rightarrow>
        Some \<lparr> name = n', floweringStart = fs', floweringEnd = fe',
               recommendedHiveDensity = d',
               location = \<lparr> type = ''Point'', coordinates = cs' \<rparr>,
               cropCreated = now e \<rparr>)))))"

text \<open>POST /api/crops (lines 446-479).\<close>

definition addCrop_errors :: "lib \<Rightarrow> request \<Rightarrow> string list" where
  "addCrop_errors L req =
     check ''name'' (notEmpty (params req ''name'')) @
     check ''floweringStart'' (isISO8601 L (str (params req ''floweringStart''))) @
     check ''floweringEnd'' (isISO8601 L (str (params req ''floweringEnd''))) @
     check ''latitude'' (isFloat L (str (params req ''latitude'')) (Some (- 90)) (Some 90)) @
     check ''longitude'' (isFloat L (str (params req ''longitude'')) (Some (- 180)) (Some 180)) @
     check ''recommendedHiveDensity''
       (isInt L (str (params req ''recommendedHiveDensity'')) (Some 1))"

definition addCrop_body :: "lib \<Rightarrow> env \<Rightarrow> request \<Rightarrow> store \<Rightarrow> response \<times> store" where
  "addCrop_body L e req s =
     (let errors = addCrop_errors L req in
      if errors \<noteq> [] then (invalid errors, s)
      else if date_ge (new_Date L (params req ''floweringStart''))
                      (new_Date L (params req ''floweringEnd''))
      then (err 400 ''floweringStart must be before floweringEnd'', s)
      else
        (case newCrop L e (params req ''name'')
                (new_Date L (params req ''floweringStart''))
                (new_Date L (params req ''floweringEnd''))
                (params req ''recommendedHiveDensity'')
                [parse_Float L (params req ''longitude''),
                 parse_Float L (params req ''latitude'')] of
           None \<Rightarrow> (server_error, s)
         | Some crop \<Rightarrow>
             (json 201 (JObj [(''message'', JStr ''Crop entry added successfully''),
                              (''crop'', crop_json crop)]),
              s\<lparr>crops := crops s @ [crop]\<rparr>)))"

definition addCrop :: "lib \<Rightarrow> env \<Rightarrow> request \<Rightarrow> store \<Rightarrow> response \<times> store" where
  "addCrop L e req s = authenticateToken L e req s (\<lambda>user. addCrop_body L e req s)"

text \<open>
  The query of GET /api/crops/nearby: \<open>$near\<close> keeps the documents whose location is at
  most \<open>$maxDistance\<close> metres from the point and yields them nearest first; the two
  conditions on the flowering window apply to the same documents.
\<close>

definition findNearby :: "lib \<Rightarrow> real list \<Rightarrow> real \<Rightarrow> date \<Rightarrow> store \<Rightarrow> crop list" where
  "findNearby L point maxDistance queryDate s =
     sort_key (\<lambda>c. geoDistance L (coordinates (location c)) point)
       (filter (\<lambda>c. geoDistance L (coordinates (location c)) point \<le> maxDistance \<and>
                    floweringStart c \<le> queryDate \<and> queryDate \<le> floweringEnd c)
          (crops s))"

text \<open>GET /api/crops/nearby (lines 516-550).\<close>

definition nearby_errors :: "lib \<Rightarrow> request \<Rightarrow> string list" where
  "nearby_errors L req =
     check ''latitude'' (params req ''latitude'' \<noteq> None) @
     check ''latitude'' (isFloat L (str (params req ''latitude'')) (Some (- 90)) (Some 90)) @
     check ''longitude'' (params req ''longitude'' \<noteq> None) @
     check ''longitude'' (isFloat L (str (params req ''longitude'')) (Some (- 180)) (Some 180)) @
     check ''radius'' (optional (params req ''radius'')
                        (isFloat L (str (params req ''radius'')) (Some 1) None)) @
     check ''date'' (optional (params req ''date'') (isISO8601 L (str (params req ''date''))))"

definition nearby_body :: "lib \<Rightarrow> env \<Rightarrow> request \<Rightarrow> store \<Rightarrow> response \<times> store" where
  "nearby_body L e req s =
     (let errors = nearby_errors L req in
      if errors \<noteq> [] then (invalid errors, s)
      else
        let latitude = parse_Float L (params req ''latitude'');
            longitude = parse_Float L (params req ''longitude'');
            radius = or_else (parse_Float L (params req ''radius'')) 100;
            queryDate = (if truthy (params req ''date'') then new_Date L (params req ''date'')
                         else Some (now e))
        in (case latitude of None \<Rightarrow> (server_error, s) | Some la \<Rightarrow>
           (case longitude of None \<Rightarrow> (server_error, s) | Some lo \<Rightarrow>
           (case queryDate of None \<Rightarrow> (server_error, s) | Some qd \<Rightarrow>
              let crops' = findNearby L [lo, la] (radius * 1000) qd s in
              if length crops' = 0
              then (json 200 (JObj [(''message'', JStr ''No crops found nearby for the given date''),
                                    (''crops'', JArr [])]), s)
              else (json 200 (JObj [(''crops'', JArr (map crop_json crops'))]), s)))))"

definition nearby :: "lib \<Rightarrow> env \<Rightarrow> request \<Rightarrow> store \<Rightarrow> response \<times> store" where
  "nearby L e req s = authenticateToken L e req s (\<lambda>user. nearby_body L e req s)"

section \<open>Export, sync and admin\<close>

text \<open>
  \<open>new Parser({ fields }).parse(data)\<close>: one row per object, one cell per field, the
  cell empty (\<open>None\<close>) when the object lacks the property. The table stands for the
  CSV text.
\<close>

definition parse :: "string list \<Rightarrow> jsvalue list \<Rightarrow> content" where
  "parse fs data = Csv fs (map (\<lambda>d. map (property d) fs) data)"

definition send :: "content \<Rightarrow> response" where
  "send c = \<lparr> status = 200, content = c \<rparr>"

text \<open>GET /export/hives (lines 566-580).\<close>

definition exportHives :: "lib \<Rightarrow> env \<Rightarrow> request \<Rightarrow> store \<Rightarrow> response \<times> store" where
  "exportHives L e req s =
     authenticateToken L e req s (\<lambda>user. requireAdmin user s
       (let fields' = [''hiveId'', ''datePlaced'', ''latitude'', ''longitude'', ''numColonies'',
                      ''dateCreated'']
        in (send (parse fields' (map hive_json (hives s))), s)))"

text \<open>\<open>xs[i]\<close> of an array of numbers, \<open>undefined\<close> out of range.\<close>

definition element :: "real list \<Rightarrow> nat \<Rightarrow> jsvalue" where
  "element xs i = (case index xs i of None \<Rightarrow> JNull | Some x \<Rightarrow> JNum x)"

text \<open>GET /export/crops (lines 595-618).\<close>

definition exportCrops_data :: "crop \<Rightarrow> jsvalue" where
  "exportCrops_data crop =
     JObj [(''name'', JStr (name crop)),
           (''floweringStart'', JDate (floweringStart crop)),
           (''floweringEnd'', JDate (floweringEnd crop)),
           (''recommendedHiveDensity'', JNum (recommendedHiveDensity crop)),
           (''latitude'', element (coordinates (location crop)) 1),
           (''longitude'', element (coordinates (location crop)) 0),
           (''dateCreated'', JDate (cropCreated crop))]"

definition exportCrops :: "lib \<Rightarrow> env \<Rightarrow> request \<Rightarrow> store \<Rightarrow> response \<times> store" where
  "exportCrops L e req s =
     authenticateToken L e req s (\<lambda>user. requireAdmin user s
       (let data = map exportCrops_data (crops s);
            fields' = [''name'', ''floweringStart'', ''floweringEnd'', ''recommendedHiveDensity'',
                      ''latitude'', ''longitude'', ''dateCreated'']
        in (send (parse fields' data), s)))"

text \<open>GET /sync (lines 632-635) and GET /admin (lines 638-647).\<close>

definition sync :: "lib \<Rightarrow> env \<Rightarrow> request \<Rightarrow> store \<Rightarrow> response \<times> store" where
  "sync L e req s =
     authenticateToken L e req s (\<lambda>user.
       (json 200 (JObj [(''syncToken'', JNum (of_int (now e)))]), s))"

definition admin :: "lib \<Rightarrow> env \<Rightarrow> request \<Rightarrow> store \<Rightarrow> response \<times> store" where
  "admin L e req s =
     authenticateToken L e req s (\<lambda>user. requireAdmin user s
       (send (Html (''<h1>Admin Dashboard</h1><ul>'' @
                    ''<li><a href=\"/export/hives\">Export Hive Logs CSV</a></li>'' @
                    ''<li><a href=\"/export/crops\">Export Crop Entries CSV</a></li>'' @
                    ''<li><a href=\"/api-docs\">API Documentation</a></li></ul>'')), s))"

section \<open>The application\<close>

datatype route =
    PostRegister | PostLogin | PostHives | GetHives | PostCrops | GetNearby
  | GetExportHives | GetExportCrops | GetSync | GetAdmin

fun app :: "lib \<Rightarrow> env \<Rightarrow> route \<Rightarrow> request \<Rightarrow> store \<Rightarrow> response \<times> store" where
  "app L e PostRegister req s = register L e req s"
| "app L e PostLogin req s = login L e req s"
| "app L e PostHives req s = addHive L e req s"
| "app L e GetHives req s = listHives L e req s"
| "app L e PostCrops req s = addCrop L e req s"
| "app L e GetNearby req s = nearby L e req s"
| "app L e GetExportHives req s = exportHives L e req s"
| "app L e GetExportCrops req s = exportCrops L e req s"
| "app L e GetSync req s = sync L e req s"
| "app L e GetAdmin req s = admin L e req s"

text \<open>The routes mounted behind authenticateToken.\<close>

definition protected :: "route \<Rightarrow> bool" where
  "protected r = (r \<noteq> PostRegister \<and> r \<noteq> PostLogin)"

text \<open>A run of the server from the empty database.\<close>

definition initial :: store where
  "initial = \<lparr> users = [], hives = [], crops = [] \<rparr>"


section \<open>A stand-in for the collaborators\<close>

text \<open>
  The theorems below hold for every library. To run them on concrete requests, this
  stand-in answers on the literals of the README's sample requests: it reads the
  numbers and dates of its tables, hashes by reversal behind a four-character salt,
  knows a handful of tokens, and measures distance in degrees at 111 km each.
\<close>

definition numbers :: "string \<rightharpoonup> real" where
  "numbers = map_of [(''0'', 0), (''0.5'', 1 / 2), (''1'', 1), (''2'', 2), (''5'', 5),
     (''50'', 50), (''26.9'', 269 / 10), (''75.8'', 758 / 10),
     (''26.9124'', 269124 / 10000), (''75.7873'', 757873 / 10000),
     (''28.7041'', 287041 / 10000), (''77.1025'', 771025 / 10000)]"

definition integers :: "string \<rightharpoonup> int" where
  "integers = map_of [(''0'', 0), (''1'', 1), (''2'', 2), (''5'', 5), (''50'', 50)]"

definition dates :: "string \<rightharpoonup> date" where
  "dates = map_of [(''2025-04-01'', 1743465600000), (''2025-04-08'', 1744070400000),
     (''2025-04-10'', 1744243200000), (''2025-04-15'', 1744675200000),
     (''2025-04-25'', 1745539200000), (''2025-05-01'', 1746057600000)]"

definition degrees :: "real list \<Rightarrow> real list \<Rightarrow> real" where
  "degrees p q =
     (case p of [a, b] \<Rightarrow> (case q of [c, d] \<Rightarrow> \<bar>a - c\<bar> + \<bar>b - d\<bar> | _ \<Rightarrow> 0) | _ \<Rightarrow> 0)"

definition tokens :: "string \<Rightarrow> jwt_error + jsvalue" where
  "tokens t =
     (if t = ''admin-token'' then Inr (JObj [(''username'', JStr ''adminUser''), (''role'', JStr ''admin'')])
      else if t = ''bee-token'' then Inr (JObj [(''username'', JStr ''bee1''), (''role'', JStr ''beekeeper'')])
      else if t = ''old-token'' then Inl TokenExpired
      else if t = ''forged-token'' then Inl TokenSignatureInvalid
      else Inl TokenMalformed)"

definition sample :: lib where
  "sample = \<lparr>
     isFloat = (\<lambda>s lo hi. case numbers s of None \<Rightarrow> False
                 | Some x \<Rightarrow> (case lo of None \<Rightarrow> True | Some a \<Rightarrow> a \<le> x) \<and>
                             (case hi of None \<Rightarrow> True | Some b \<Rightarrow> x \<le> b)),
     isInt = (\<lambda>s lo. case integers s of None \<Rightarrow> False
                 | Some x \<Rightarrow> (case lo of None \<Rightarrow> True | Some a \<Rightarrow> a \<le> x)),
     isISO8601 = (\<lambda>s. dates s \<noteq> None),
     parseFloat = numbers,
     parseInt = integers,
     newDate = dates,
     castNumber = numbers,
     castString = (\<lambda>j. None),
     filterString = (\<lambda>v n. False),
     bcrypt_hash = (\<lambda>pw st. st @ rev pw),
     bcrypt_compare = (\<lambda>pw h. drop 4 h = rev pw),
     jwt_sign = (\<lambda>payload secret expiresIn t. secret @ ''/'' @ expiresIn),
     jwt_verify = (\<lambda>t secret clock. tokens t),
     geoDistance = (\<lambda>p q. 111000 * degrees p q) \<rparr>"

definition clock :: env where
  "clock = \<lparr> now = 1744675200000, salt = ''salt'', JWT_SECRET = ''secret'' \<rparr>"

definition get :: "string option \<Rightarrow> (string \<times> string) list \<Rightarrow> request" where
  "get auth kvs = \<lparr> authorization = auth, params = map_of kvs, nonstring = Map.empty,
                   elsewhere = (\<lambda>field. []) \<rparr>"

text \<open>The README's sample registration, and the store after it.\<close>

definition bee1 :: "(string \<times> string) list" where
  "bee1 = [(''username'', ''bee1''), (''password'', ''password123''), (''role'', ''beekeeper'')]"

definition registered :: store where
  "registered = snd (register sample clock (get None bee1) initial)"

text \<open>
  A login whose password is the JSON number 12345678, and a registration whose fields
  are in the query string only.
\<close>

definition numeric :: "string \<Rightarrow> request" where
  "numeric n = (get None [(''username'', n), (''password'', ''12345678'')])
                 \<lparr>nonstring := [''password'' \<mapsto> JNum 12345678]\<rparr>"

definition queried :: request where
  "queried = \<lparr> authorization = None, params = Map.empty, nonstring = Map.empty,
               elsewhere = (\<lambda>field. if field = ''username'' then [''u'']
                              else if field = ''password'' then [''1234567'']
                              else if field = ''role'' then [''admin''] else []) \<rparr>"

text \<open>A beekeeper's header, the README's sample hive log and a store of three logs.\<close>

definition bee :: "string option" where
  "bee = Some ''Bearer bee-token''"


definition h004 :: hive where
  "h004 = \<lparr> hiveId = ''HIVE004'', datePlaced = 1744070400000, latitude = 287041 / 10000,
            longitude = 771025 / 10000, numColonies = 5, dateCreated = 1744675200000 \<rparr>"

definition h001 :: hive where
  "h001 = \<lparr> hiveId = ''HIVE001'', datePlaced = 1743465600000, latitude = 269 / 10,
            longitude = 758 / 10, numColonies = 2, dateCreated = 1744675200000 \<rparr>"

definition h002 :: hive where
  "h002 = \<lparr> hiveId = ''HIVE002'', datePlaced = 1744675200000, latitude = 269 / 10,
            longitude = 758 / 10, numColonies = 1, dateCreated = 1744675200000 \<rparr>"

definition apiary :: store where
  "apiary = \<lparr> users = [], hives = [h001, h002, h004], crops = [] \<rparr>"



definition crop0 :: crop where
  "crop0 = \<lparr> name = ''Sunflower'', floweringStart = 1744243200000,
             floweringEnd = 1745539200000, recommendedHiveDensity = 5,
             location = \<lparr> type = ''Point'', coordinates = [757873 / 10000, 269124 / 10000] \<rparr>,
             cropCreated = 1744675200000 \<rparr>"

definition field :: store where
  "field = \<lparr> users = [], hives = [], crops = [crop0] \<rparr>"

definition around :: "(string \<times> string) list" where
  "around = [(''latitude'', ''26.9''), (''longitude'', ''75.8'')]"

section \<open>Properties\<close>

lemmas routes = register_def login_def addHive_def listHives_def addCrop_def nearby_def
  exportHives_def exportCrops_def sync_def admin_def

subsection \<open>Requests without a valid token\<close>

lemma bearer_no_second_part: "bearer (get (Some ''Bearer'') []) = None"
  by (simp add: bearer_def get_def index_def)

lemma bearer_old_token: "bearer (get (Some ''Bearer old-token'') []) = Some ''old-token''"
  by (simp add: bearer_def get_def index_def)

text \<open>
  Claim C10. On every protected route, a request whose Authorization header yields no
  bearer token is answered 401 with error "Access token required", and a request whose
  token the verifier refuses (malformed, expired or with an invalid signature) is
  answered 403 with error "Invalid token". In both cases the answer and the unchanged
  store are returned whatever the rest of the chain \<open>next\<close> is: the handler is not run.
\<close>

theorem authenticateToken_rejects:
  "(bearer req = None \<longrightarrow>
      authenticateToken L e req s next = (err 401 ''Access token required'', s) \<and>
      (protected r \<longrightarrow> app L e r req s = (err 401 ''Access token required'', s))) \<and>
   (\<forall>token er. bearer req = Some token \<and> jwt_verify L token (JWT_SECRET e) (now e) = Inl er \<longrightarrow>
      authenticateToken L e req s next = (err 403 ''Invalid token'', s) \<and>
      (protected r \<longrightarrow> app L e r req s = (err 403 ''Invalid token'', s)))"
proof -
  have none: "authenticateToken L e req s k = (err 401 ''Access token required'', s)"
    if "bearer req = None" for k
    using that by (simp add: authenticateToken_def)
  have refused: "authenticateToken L e req s k = (err 403 ''Invalid token'', s)"
    if "bearer req = Some token \<and> jwt_verify L token (JWT_SECRET e) (now e) = Inl er"
    for k token er
    using that by (simp add: authenticateToken_def)
  have behind: "\<exists>k. app L e r req s = authenticateToken L e req s k" if "protected r"
    using that by (cases r) (auto simp: protected_def routes)
  show ?thesis
  proof (intro conjI impI allI)
    assume "bearer req = None"
    then show "authenticateToken L e req s next = (err 401 ''Access token required'', s)"
      by (rule none)
  next
    assume "bearer req = None" and "protected r"
    then show "app L e r req s = (err 401 ''Access token required'', s)"
      using none behind by metis
  next
    fix token er
    assume "bearer req = Some token \<and> jwt_verify L token (JWT_SECRET e) (now e) = Inl er"
    then show "authenticateToken L e req s next = (err 403 ''Invalid token'', s)"
      by (rule refused)
  next
    fix token er
    assume "bearer req = Some token \<and> jwt_verify L token (JWT_SECRET e) (now e) = Inl er"
      and "protected r"
    then show "app L e r req s = (err 403 ''Invalid token'', s)"
      using refused behind by metis
  qed
qed

theorem authenticateToken_rejects_witness:
  "bearer (get (Some ''Bearer'') []) = None \<and>
   app sample clock GetHives (get (Some ''Bearer'') []) initial =
     (err 401 ''Access token required'', initial) \<and>
   bearer (get (Some ''Bearer old-token'') []) = Some ''old-token'' \<and>
   jwt_verify sample ''old-token'' (JWT_SECRET clock) (now clock) = Inl TokenExpired \<and>
   app sample clock PostHives (get (Some ''Bearer old-token'') []) initial =
     (err 403 ''Invalid token'', initial)"
proof -
  have v: "jwt_verify sample ''old-token'' (JWT_SECRET clock) (now clock) = Inl TokenExpired"
    by (simp add: sample_def tokens_def)
  have p1: "protected GetHives" and p2: "protected PostHives"
    by (simp_all add: protected_def)
  from authenticateToken_rejects
         [of "get (Some ''Bearer'') []" sample clock initial undefined GetHives]
       bearer_no_second_part p1
  have 1: "app sample clock GetHives (get (Some ''Bearer'') []) initial =
             (err 401 ''Access token required'', initial)"
    by blast
  from authenticateToken_rejects
         [of "get (Some ''Bearer old-token'') []" sample clock initial undefined PostHives]
       bearer_old_token v p2
  have 2: "app sample clock PostHives (get (Some ''Bearer old-token'') []) initial =
             (err 403 ''Invalid token'', initial)"
    by blast
  from 1 2 bearer_no_second_part bearer_old_token v show ?thesis by blast
qed

subsection \<open>Registration\<close>

lemmas validators = check_def notEmpty_def isLength_def isIn_def optional_def str_def

lemma get_fields:
  "instances (get auth kvs) f = (case map_of kvs f of None \<Rightarrow> [] | Some v \<Rightarrow> [v])"
  "raw (get auth kvs) f = (case map_of kvs f of None \<Rightarrow> Undefined | Some v \<Rightarrow> Str v)"
  by (simp_all add: instances_def raw_def get_def split: option.splits)

lemma checked_once:
  "elsewhere req f = [] \<Longrightarrow> checked req f P = check f (P (params req f))"
  by (cases "params req f") (simp_all add: checked_def instances_def)

lemma registered_eq:
  "registered = \<lparr> users = [\<lparr> uid = 0, username = ''bee1'', password = ''salt321drowssap'',
                              role = ''beekeeper'' \<rparr>], hives = [], crops = [] \<rparr>"
  by (simp add: registered_def register_def register_errors_def checked_def get_fields validators
      bee1_def findOne_def findUser_def newUser_def castPath_def initial_def saveUser_def
      sample_def clock_def json_def)

lemma findUser_None: "findUser n s = None \<longleftrightarrow> n \<notin> username ` set (users s)"
  by (auto simp: findUser_def find_None_iff)

lemma register_errors_Nil:
  assumes "elsewhere req ''username'' = []" "elsewhere req ''password'' = []"
    "elsewhere req ''role'' = []"
  shows "register_errors req = [] \<longleftrightarrow>
     str (params req ''username'') \<noteq> [] \<and> 6 \<le> length (str (params req ''password'')) \<and>
     str (params req ''role'') \<in> {''beekeeper'', ''admin''}"
  using assms
  by (auto simp: register_errors_def checked_once check_def notEmpty_def isLength_def isIn_def)

text \<open>
  Claim C4, as stated, fails: a request with an existing username and a short password
  is answered with the validation errors, not with "Username already exists".
\<close>

theorem register_conflict_counterexample:
  "''bee1'' \<in> username ` set (users registered) \<and>
   register sample clock
     (get None [(''username'', ''bee1''), (''password'', ''abc''), (''role'', ''beekeeper'')])
     registered = (invalid [''password''], registered) \<and>
   invalid [''password''] \<noteq> err 400 ''Username already exists''"
  by (simp add: registered_eq register_def register_errors_def checked_def get_fields validators
      invalid_def err_def json_def)

text \<open>
  Claim C4, amended. For a request that gives username, password and role in the body
  only, each as a JSON string or not at all: \<open>register\<close> answers 400 with the validation
  errors iff the username is empty, the password has fewer than 6 characters or the
  role is neither beekeeper nor admin; it answers 400 "Username already exists" iff the
  fields are valid and the username is already stored; otherwise it stores the user
  with the bcrypt hash of the password under the request's salt and answers 201 with a
  message and no token.
\<close>

theorem register_outcomes:
  assumes once: "elsewhere req ''username'' = []" "elsewhere req ''password'' = []"
      "elsewhere req ''role'' = []"
    and strings: "nonstring req ''username'' = None" "nonstring req ''password'' = None"
      "nonstring req ''role'' = None"
  shows "let u = str (params req ''username'');
       p = str (params req ''password'');
       r = str (params req ''role'');
       bad = (u = [] \<or> length p < 6 \<or> r \<notin> {''beekeeper'', ''admin''});
       taken = (u \<in> username ` set (users s));
       created = \<lparr> uid = length (users s), username = u,
                   password = bcrypt_hash L p (salt e), role = r \<rparr>;
       ok = JObj [(''message'', JStr ''User registered successfully'')]
   in ((register L e req s = (invalid (register_errors req), s) \<and> register_errors req \<noteq> []) = bad) \<and>
      ((register L e req s = (err 400 ''Username already exists'', s)) = (\<not> bad \<and> taken)) \<and>
      ((register L e req s = (json 201 ok, s\<lparr>users := users s @ [created]\<rparr>)) =
         (\<not> bad \<and> \<not> taken)) \<and>
      property ok ''token'' = None"
proof (cases "register_errors req = []")
  case True
  let ?u = "str (params req ''username'')" and ?p = "str (params req ''password'')"
    and ?r = "str (params req ''role'')"
  from True have ok: "?u \<noteq> []" "6 \<le> length ?p" "?r \<in> {''beekeeper'', ''admin''}"
    using register_errors_Nil [OF once] by simp_all
  have raws: "raw req ''username'' = Str ?u" "raw req ''password'' = Str ?p"
    "raw req ''role'' = Str ?r"
    using ok strings by (auto simp: raw_def str_def split: option.splits)
  show ?thesis
  proof (cases "findUser ?u s")
    case None
    with True ok raws show ?thesis
      using findUser_None [of ?u s]
      by (auto simp: register_def Let_def findOne_def newUser_def castPath_def saveUser_def
          err_def json_def)
  next
    case (Some x)
    with True ok raws show ?thesis
      using findUser_None [of ?u s]
      by (auto simp: register_def Let_def findOne_def err_def json_def)
  qed
next
  case False
  then show ?thesis
    using register_errors_Nil [OF once]
    by (auto simp: register_def Let_def invalid_def err_def json_def)
qed

theorem register_outcomes_witness:
  "register sample clock (get None bee1) initial =
     (json 201 (JObj [(''message'', JStr ''User registered successfully'')]),
      \<lparr> users = [\<lparr> uid = 0, username = ''bee1'', password = ''salt321drowssap'',
                   role = ''beekeeper'' \<rparr>], hives = [], crops = [] \<rparr>)"
proof -
  have once: "elsewhere (get None bee1) ''username'' = []"
    "elsewhere (get None bee1) ''password'' = []" "elsewhere (get None bee1) ''role'' = []"
    and strings: "nonstring (get None bee1) ''username'' = None"
    "nonstring (get None bee1) ''password'' = None" "nonstring (get None bee1) ''role'' = None"
    by (simp_all add: get_def)
  from register_outcomes [OF once strings, of initial sample clock] show ?thesis
    by (simp add: Let_def get_def bee1_def str_def initial_def sample_def clock_def)
qed

text \<open>
  Outside these requests the handler can end in its \<open>catch\<close>: \<open>bcrypt.hash\<close> throws on a
  password that is not a string, and \<open>check\<close> accepts fields of the query string that the
  handler, reading the body, does not see.
\<close>

lemma register_password_not_string:
  assumes "register_errors req = []"
    and "findOne L (raw req ''username'') s = None"
    and "raw req ''password'' = NonStr j"
  shows "register L e req s = (err 500 ''Server error'', s)"
  using assms by (simp add: register_def server_error_def)

lemma register_numeric_password:
  "register sample clock
     ((get None [(''username'', ''u''), (''password'', ''1234567''), (''role'', ''admin'')])
        \<lparr>nonstring := [''password'' \<mapsto> JNum 1234567]\<rparr>) initial =
   (err 500 ''Server error'', initial)"
  by (simp add: register_def register_errors_def checked_def instances_def raw_def validators
      get_def findOne_def findUser_def initial_def server_error_def)

lemma register_fields_in_query:
  "register sample clock queried initial = (err 500 ''Server error'', initial)"
  by (simp add: register_def register_errors_def checked_def instances_def raw_def validators
      queried_def findOne_def sample_def initial_def server_error_def)

subsection \<open>Login\<close>




text \<open>
  The two failures of a login that passes the validators: an unknown username, and a
  stored one with a password that bcrypt refuses, get the same answer when the password
  is a string. When it is not, \<open>bcrypt.compare\<close> throws, for a stored username only.
\<close>

lemma login_unknown:
  assumes "login_errors req = []" and "findOne L (raw req ''username'') s = None"
  shows "login L e req s = (err 400 ''Invalid credentials'', s)"
  using assms by (simp add: login_def)

lemma login_mismatch:
  assumes "login_errors req = []" and "findOne L (raw req ''username'') s = Some u"
    and "raw req ''password'' = Str pw" and "\<not> bcrypt_compare L pw (password u)"
  shows "login L e req s = (err 400 ''Invalid credentials'', s)"
  using assms by (simp add: login_def)

lemma login_password_not_string:
  assumes "login_errors req = []" and "findOne L (raw req ''username'') s = Some u"
    and "raw req ''password'' = NonStr j"
  shows "login L e req s = (err 500 ''Server error'', s)"
  using assms by (simp add: login_def server_error_def)

text \<open>
  Claim C7 does not hold of the handler. With the JSON number 12345678 as the password,
  a login for a username that is not stored is answered 400 "Invalid credentials" and
  a login for a stored username is answered 500 "Server error": the two responses
  differ, and tell whether the username is stored.
\<close>

theorem login_numeric_password:
  "login sample clock (numeric ''ghost'') registered =
     (err 400 ''Invalid credentials'', registered) \<and>
   login sample clock (numeric ''bee1'') registered =
     (err 500 ''Server error'', registered) \<and>
   err 400 ''Invalid credentials'' \<noteq> err 500 ''Server error''"
proof -
  let ?u = "\<lparr> uid = 0, username = ''bee1'', password = ''salt321drowssap'',
              role = ''beekeeper'' \<rparr>"
  have v: "login_errors (numeric n) = []" if "n \<noteq> []" for n
    using that
    by (simp add: login_errors_def checked_def instances_def numeric_def get_def validators)
  have r: "raw (numeric n) ''username'' = Str n"
    "raw (numeric n) ''password'' = NonStr (JNum 12345678)" for n
    by (simp_all add: raw_def numeric_def get_def)
  have ghost: "findOne sample (Str ''ghost'') registered = None"
    and bee1: "findOne sample (Str ''bee1'') registered = Some ?u"
    by (simp_all add: findOne_def findUser_def registered_eq)
  have 1: "login sample clock (numeric ''ghost'') registered =
     (err 400 ''Invalid credentials'', registered)"
    by (rule login_unknown) (simp_all add: v r ghost)
  have 2: "login sample clock (numeric ''bee1'') registered =
     (err 500 ''Server error'', registered)"
    by (rule login_password_not_string [where u = ?u and j = "JNum 12345678"])
       (simp_all add: v r bee1)
  have 3: "err 400 ''Invalid credentials'' \<noteq> err 500 ''Server error''"
    by (simp add: err_def json_def)
  from 1 2 3 show ?thesis by simp
qed


subsection \<open>Hive logs\<close>


lemma authenticated:
  "bearer req = Some token \<Longrightarrow> jwt_verify L token (JWT_SECRET e) (now e) = Inr user \<Longrightarrow>
   authenticateToken L e req s next = next user"
  by (simp add: authenticateToken_def)
















lemma matches_None [simp]: "matches None None h"
  by (simp add: matches_def)


lemma bearer_bee: "bearer (get bee kvs) = Some ''bee-token''"
  by (simp add: bearer_def get_def bee_def index_def)

lemma verify_bee:
  "jwt_verify sample ''bee-token'' (JWT_SECRET clock) (now clock) =
     Inr (JObj [(''username'', JStr ''bee1''), (''role'', JStr ''beekeeper'')])"
  by (simp add: sample_def tokens_def)




lemma neg_div:
  fixes l :: int
  assumes "1 \<le> l"
  shows "- (- a div l) = (a + l - 1) div l"
proof -
  let ?q = "(a + l - 1) div l" and ?r = "(a + l - 1) mod l"
  have r: "0 \<le> ?r" "?r < l" using assms by simp_all
  have "a + l - 1 = l * ?q + ?r" by simp
  then have "- a = l * (- ?q) + (l - 1 - ?r)" by (simp add: algebra_simps)
  moreover have "0 \<le> l - 1 - ?r" "l - 1 - ?r < l" using r by linarith+
  ultimately have "- a div l = - ?q" by (rule int_div_pos_eq)
  then show ?thesis by simp
qed

lemma ceil_div:
  fixes l :: int
  assumes "1 \<le> l"
  shows "\<lceil>real n / of_int l\<rceil> = (int n + l - 1) div l"
proof -
  have "\<lceil>real n / of_int l\<rceil> = \<lceil>(of_int (int n) :: real) / of_int l\<rceil>" by simp
  also have "\<dots> = - (- int n div l)" by (rule ceiling_divide_eq_div)
  also have "\<dots> = (int n + l - 1) div l" using assms by (rule neg_div)
  finally show ?thesis .
qed

lemma matches_iff:
  "matches gte lte h \<longleftrightarrow>
     (\<forall>a. gte = Some a \<longrightarrow> a \<le> datePlaced h) \<and> (\<forall>b. lte = Some b \<longrightarrow> datePlaced h \<le> b)"
  by (cases gte; cases lte) (simp_all add: matches_def)

lemma sorted_desc: "sorted_wrt (\<lambda>x y. datePlaced y \<le> datePlaced x) (sort_key (\<lambda>h. - datePlaced h) xs)"
proof -
  have "sorted (map (\<lambda>h. - datePlaced h) (sort_key (\<lambda>h. - datePlaced h) xs))"
    by (rule sorted_sort_key)
  then show ?thesis by (simp add: sorted_wrt_map)
qed


text \<open>
  Claim C5. For an authenticated GET /api/hives whose date bounds, where supplied, are
  valid dates and whose page and limit are at least 1, the answer is 200 with the
  hives of the page, the total and the page count, and the store is unchanged. \<open>M\<close> is
  the stored logs whose datePlaced lies within the supplied bounds, inclusive; \<open>S\<close> is
  \<open>M\<close> sorted by datePlaced descending (the same logs, as a multiset); the page is
  \<open>limit\<close> entries of \<open>S\<close> after the first \<open>(page - 1) * limit\<close>; the total is the length of
  \<open>M\<close> and the page count is its ceiling quotient by \<open>limit\<close>. An absent page is 1 and an
  absent limit is 10.
\<close>

theorem listHives_page:
  assumes auth: "bearer req = Some token" "jwt_verify L token (JWT_SECRET e) (now e) = Inr user"
    and gte: "gte = (if truthy (params req ''startDate'') then new_Date L (params req ''startDate'') else None)"
    and sd: "truthy (params req ''startDate'') \<longrightarrow> new_Date L (params req ''startDate'') \<noteq> None"
    and lte: "lte = (if truthy (params req ''endDate'') then new_Date L (params req ''endDate'') else None)"
    and ed: "truthy (params req ''endDate'') \<longrightarrow> new_Date L (params req ''endDate'') \<noteq> None"
    and page: "page = or_else (parse_Int L (params req ''page'')) 1" "1 \<le> page"
    and limit: "limit = or_else (parse_Int L (params req ''limit'')) 10" "1 \<le> limit"
  shows "let M = filter (\<lambda>h. (\<forall>a. gte = Some a \<longrightarrow> a \<le> datePlaced h) \<and>
                              (\<forall>b. lte = Some b \<longrightarrow> datePlaced h \<le> b)) (hives s);
             S = sort_key (\<lambda>h. - datePlaced h) M
         in listHives L e req s =
              (json 200 (JObj [(''hives'', JArr (map hive_json
                                  (take (nat limit) (drop (nat ((page - 1) * limit)) S)))),
                               (''total'', JNum (of_nat (length M))),
                               (''page'', JNum (of_int page)),
                               (''pages'', JNum (of_int \<lceil>real (length M) / of_int limit\<rceil>))]), s) \<and>
            mset S = mset M \<and>
            sorted_wrt (\<lambda>x y. datePlaced y \<le> datePlaced x) S \<and>
            \<lceil>real (length M) / of_int limit\<rceil> = (int (length M) + limit - 1) div limit \<and>
            (params req ''page'' = None \<longrightarrow> page = 1) \<and>
            (params req ''limit'' = None \<longrightarrow> limit = 10)"
proof -
  let ?M = "filter (matches gte lte) (hives s)"
  let ?S = "sort_key (\<lambda>h. - datePlaced h) ?M"
  have M: "filter (\<lambda>h. (\<forall>a. gte = Some a \<longrightarrow> a \<le> datePlaced h) \<and>
                              (\<forall>b. lte = Some b \<longrightarrow> datePlaced h \<le> b)) (hives s) = ?M"
    by (rule filter_cong) (simp_all add: matches_iff)
  have b1: "bound L (params req ''startDate'') \<noteq> Some None"
    and b2: "bound L (params req ''endDate'') \<noteq> Some None"
    using sd ed by (auto simp: bound_def)
  have g: "(case bound L (params req ''startDate'') of None \<Rightarrow> None | Some d \<Rightarrow> d) = gte"
    and l: "(case bound L (params req ''endDate'') of None \<Rightarrow> None | Some d \<Rightarrow> d) = lte"
    using gte lte by (simp_all add: bound_def)
  have "0 \<le> (page - 1) * limit"
    using page(2) limit(2) by (intro mult_nonneg_nonneg) linarith+
  then have skip: "\<not> (page - 1) * limit < 0" by linarith
  have abs: "\<bar>limit\<bar> = limit" "limit \<noteq> 0" using limit(2) by simp_all
  have find: "findHives gte lte ((page - 1) * limit) limit s =
      Some (take (nat limit) (drop (nat ((page - 1) * limit)) ?S))"
    unfolding findHives_def Let_def using skip abs by simp
  have "listHives L e req s = listHives_body L req s"
    using auth by (simp add: listHives_def authenticated)
  also have "\<dots> = (json 200 (JObj [(''hives'', JArr (map hive_json
                                  (take (nat limit) (drop (nat ((page - 1) * limit)) ?S)))),
                               (''total'', JNum (of_nat (length ?M))),
                               (''page'', JNum (of_int page)),
                               (''pages'', JNum (of_int \<lceil>real (length ?M) / of_int limit\<rceil>))]), s)"
    unfolding listHives_body_def Let_def
    using b1 b2 by (simp add: g l page(1) [symmetric] limit(1) [symmetric] find countDocuments_def)
  finally have 1: "listHives L e req s = (json 200 (JObj [(''hives'', JArr (map hive_json
                                  (take (nat limit) (drop (nat ((page - 1) * limit)) ?S)))),
                               (''total'', JNum (of_nat (length ?M))),
                               (''page'', JNum (of_int page)),
                               (''pages'', JNum (of_int \<lceil>real (length ?M) / of_int limit\<rceil>))]), s)" .
  have 2: "mset ?S = mset ?M" by simp
  have 3: "sorted_wrt (\<lambda>x y. datePlaced y \<le> datePlaced x) ?S" by (rule sorted_desc)
  have 4: "\<lceil>real (length ?M) / of_int limit\<rceil> = (int (length ?M) + limit - 1) div limit"
    using limit(2) by (rule ceil_div)
  have 5: "params req ''page'' = None \<longrightarrow> page = 1"
    and 6: "params req ''limit'' = None \<longrightarrow> limit = 10"
    using page(1) limit(1) by (simp_all add: parse_Int_def or_else_def)
  from 1 2 3 4 5 6 show ?thesis unfolding Let_def M by blast
qed

theorem listHives_page_witness:
  "listHives sample clock
     (get bee [(''startDate'', ''2025-04-08''), (''page'', ''2''), (''limit'', ''1'')]) apiary =
     (json 200 (JObj [(''hives'', JArr [hive_json h004]), (''total'', JNum 2),
                      (''page'', JNum 2), (''pages'', JNum 2)]), apiary)"
proof -
  let ?req = "get bee [(''startDate'', ''2025-04-08''), (''page'', ''2''), (''limit'', ''1'')]"
  have gte: "Some 1744070400000 = (if truthy (params ?req ''startDate'')
       then new_Date sample (params ?req ''startDate'') else None)"
    and sd: "truthy (params ?req ''startDate'') \<longrightarrow> new_Date sample (params ?req ''startDate'') \<noteq> None"
    by (simp_all add: truthy_def new_Date_def get_def sample_def dates_def)
  have lte: "None = (if truthy (params ?req ''endDate'')
       then new_Date sample (params ?req ''endDate'') else None)"
    and ed: "truthy (params ?req ''endDate'') \<longrightarrow> new_Date sample (params ?req ''endDate'') \<noteq> None"
    by (simp_all add: truthy_def get_def)
  have page: "2 = or_else (parse_Int sample (params ?req ''page'')) 1"
    and limit: "1 = or_else (parse_Int sample (params ?req ''limit'')) 10"
    by (simp_all add: or_else_def parse_Int_def get_def sample_def integers_def)
  from listHives_page [OF bearer_bee verify_bee gte sd lte ed page _ limit, of apiary]
  show ?thesis
    by (simp add: Let_def apiary_def h001_def h002_def h004_def)
qed

subsection \<open>Crop entries\<close>




















subsection \<open>Nearby crops\<close>

lemma nearby_errors_Nil:
  "nearby_errors L req = [] \<longleftrightarrow>
     params req ''latitude'' \<noteq> None \<and>
     isFloat L (str (params req ''latitude'')) (Some (- 90)) (Some 90) \<and>
     params req ''longitude'' \<noteq> None \<and>
     isFloat L (str (params req ''longitude'')) (Some (- 180)) (Some 180) \<and>
     (params req ''radius'' = None \<or> isFloat L (str (params req ''radius'')) (Some 1) None) \<and>
     (params req ''date'' = None \<or> isISO8601 L (str (params req ''date'')))"
  by (simp add: nearby_errors_def check_def optional_def)

lemma nearby_valid:
  assumes auth: "bearer req = Some token" "jwt_verify L token (JWT_SECRET e) (now e) = Inr user"
    and valid: "nearby_errors L req = []"
    and la: "parse_Float L (params req ''latitude'') = Some la"
    and lo: "parse_Float L (params req ''longitude'') = Some lo"
    and day: "(if truthy (params req ''date'') then new_Date L (params req ''date'')
               else Some (now e)) = Some day"
  shows "nearby L e req s =
     (json 200 (JObj ((if findNearby L [lo, la]
                            (or_else (parse_Float L (params req ''radius'')) 100 * 1000) day s = []
                       then [(''message'', JStr ''No crops found nearby for the given date'')]
                       else []) @
                      [(''crops'', JArr (map crop_json (findNearby L [lo, la]
                            (or_else (parse_Float L (params req ''radius'')) 100 * 1000) day s)))])),
      s)"
proof -
  have "nearby L e req s = nearby_body L e req s"
    using auth by (simp add: nearby_def authenticated)
  then show ?thesis
    using valid la lo day by (simp add: nearby_body_def Let_def)
qed

lemma around_values:
  "parse_Float sample (params (get bee (around @ kvs)) ''latitude'') = Some (269 / 10)"
  "parse_Float sample (params (get bee (around @ kvs)) ''longitude'') = Some (758 / 10)"
  by (simp_all add: parse_Float_def get_def around_def sample_def numbers_def)

lemma crop0_distance:
  "geoDistance sample (coordinates (location crop0)) [x, y] =
     111000 * (\<bar>757873 / 10000 - x\<bar> + \<bar>269124 / 10000 - y\<bar>)"
  by (simp add: sample_def degrees_def crop0_def)

text \<open>
  Claim C1. For an authenticated GET /api/crops/nearby that passes the validators, with
  the point \<open>(la, lo)\<close>, the radius (100 when absent) and the day (the server's clock
  when absent), the answer is 200 and its \<open>crops\<close> are exactly the stored entries whose
  location is within \<open>radius\<close> kilometres of the point, by the distance of the index,
  and whose flowering window contains the day, both ends included: the same entries
  as a multiset and as a set, nearest first. With no such entry the answer is still
  200, with a message and an empty array. The store is unchanged.
\<close>

theorem nearby_exact:
  assumes auth: "bearer req = Some token" "jwt_verify L token (JWT_SECRET e) (now e) = Inr user"
    and valid: "nearby_errors L req = []"
    and la: "parse_Float L (params req ''latitude'') = Some la"
    and lo: "parse_Float L (params req ''longitude'') = Some lo"
    and radius: "radius = or_else (parse_Float L (params req ''radius'')) 100"
    and day: "(if truthy (params req ''date'') then new_Date L (params req ''date'')
               else Some (now e)) = Some day"
  shows "\<exists>found.
           nearby L e req s =
             (json 200 (JObj ((if found = []
                               then [(''message'', JStr ''No crops found nearby for the given date'')]
                               else []) @
                              [(''crops'', JArr (map crop_json found))])), s) \<and>
           mset found =
             mset (filter (\<lambda>c. geoDistance L (coordinates (location c)) [lo, la] / 1000 \<le> radius \<and>
                                floweringStart c \<le> day \<and> day \<le> floweringEnd c) (crops s)) \<and>
           set found =
             {c \<in> set (crops s).
                geoDistance L (coordinates (location c)) [lo, la] / 1000 \<le> radius \<and>
                floweringStart c \<le> day \<and> day \<le> floweringEnd c} \<and>
           sorted (map (\<lambda>c. geoDistance L (coordinates (location c)) [lo, la]) found)"
proof -
  let ?found = "findNearby L [lo, la] (radius * 1000) day s"
  let ?P = "\<lambda>c. geoDistance L (coordinates (location c)) [lo, la] / 1000 \<le> radius \<and>
                 floweringStart c \<le> day \<and> day \<le> floweringEnd c"
  have found: "?found = sort_key (\<lambda>c. geoDistance L (coordinates (location c)) [lo, la])
                          (filter ?P (crops s))"
    by (simp add: findNearby_def)
  have 1: "nearby L e req s =
             (json 200 (JObj ((if ?found = []
                               then [(''message'', JStr ''No crops found nearby for the given date'')]
                               else []) @
                              [(''crops'', JArr (map crop_json ?found))])), s)"
    unfolding radius by (rule nearby_valid [OF auth valid la lo day])
  have 2: "mset ?found = mset (filter ?P (crops s))"
    unfolding found by simp
  have 3: "set ?found = {c \<in> set (crops s). ?P c}"
    unfolding found by simp
  have 4: "sorted (map (\<lambda>c. geoDistance L (coordinates (location c)) [lo, la]) ?found)"
    unfolding found by (rule sorted_sort_key)
  from 1 2 3 4 show ?thesis by (intro exI [of _ ?found] conjI)
qed

theorem nearby_exact_witness:
  "nearby sample clock (get bee (around @ [(''radius'', ''50''), (''date'', ''2025-04-15'')])) field =
     (json 200 (JObj [(''crops'', JArr [crop_json crop0])]), field) \<and>
   nearby sample clock (get bee (around @ [(''radius'', ''50''), (''date'', ''2025-05-01'')])) field =
     (json 200 (JObj [(''message'', JStr ''No crops found nearby for the given date''),
                      (''crops'', JArr [])]), field)"
proof -
  let ?q1 = "get bee (around @ [(''radius'', ''50''), (''date'', ''2025-04-15'')])"
  let ?q2 = "get bee (around @ [(''radius'', ''50''), (''date'', ''2025-05-01'')])"
  have v: "nearby_errors sample ?q1 = []" "nearby_errors sample ?q2 = []"
    by (simp_all add: nearby_errors_Nil get_def around_def str_def sample_def numbers_def dates_def)
  have r: "50 = or_else (parse_Float sample (params ?q1 ''radius'')) 100"
    "50 = or_else (parse_Float sample (params ?q2 ''radius'')) 100"
    by (simp_all add: or_else_def parse_Float_def get_def around_def sample_def numbers_def)
  have d1: "(if truthy (params ?q1 ''date'') then new_Date sample (params ?q1 ''date'')
             else Some (now clock)) = Some 1744675200000"
    and d2: "(if truthy (params ?q2 ''date'') then new_Date sample (params ?q2 ''date'')
             else Some (now clock)) = Some 1746057600000"
    by (simp_all add: truthy_def new_Date_def get_def around_def sample_def dates_def)
  have w: "floweringStart crop0 = 1744243200000" "floweringEnd crop0 = 1745539200000"
    by (simp_all add: crop0_def)
  from nearby_exact [OF bearer_bee verify_bee v(1) around_values r(1) d1, of field]
  obtain f1 where f1: "nearby sample clock ?q1 field =
             (json 200 (JObj ((if f1 = []
                               then [(''message'', JStr ''No crops found nearby for the given date'')]
                               else []) @
                              [(''crops'', JArr (map crop_json f1))])), field)"
      "mset f1 = {#crop0#}"
    by (auto simp: field_def crop0_distance w)
  from f1(2) have "f1 = [crop0]" by simp
  with f1(1) have 1: "nearby sample clock ?q1 field =
     (json 200 (JObj [(''crops'', JArr [crop_json crop0])]), field)"
    by simp
  from nearby_exact [OF bearer_bee verify_bee v(2) around_values r(2) d2, of field]
  obtain f2 where f2: "nearby sample clock ?q2 field =
             (json 200 (JObj ((if f2 = []
                               then [(''message'', JStr ''No crops found nearby for the given date'')]
                               else []) @
                              [(''crops'', JArr (map crop_json f2))])), field)"
      "mset f2 = {#}"
    by (auto simp: field_def crop0_distance w)
  from f2 have 2: "nearby sample clock ?q2 field =
     (json 200 (JObj [(''message'', JStr ''No crops found nearby for the given date''),
                      (''crops'', JArr [])]), field)"
    by simp
  from 1 2 show ?thesis by (rule conjI)
qed

text \<open>
  Claim C9. For an authenticated GET /api/crops/nearby, a radius that is supplied and
  fails \<open>isFloat({ min: 1 })\<close> is answered 400 with a validation error for radius,
  whatever the store holds; an absent radius passes its validator and the query runs
  with 100 km.
\<close>

theorem nearby_radius:
  assumes auth: "bearer req = Some token" "jwt_verify L token (JWT_SECRET e) (now e) = Inr user"
  shows "(\<forall>r. params req ''radius'' = Some r \<and> \<not> isFloat L r (Some 1) None \<longrightarrow>
            nearby L e req s = (invalid (nearby_errors L req), s) \<and>
            ''radius'' \<in> set (nearby_errors L req) \<and>
            status (invalid (nearby_errors L req)) = 400 \<and>
            (\<forall>s'. fst (nearby L e req s') = fst (nearby L e req s))) \<and>
         (params req ''radius'' = None \<longrightarrow>
            ''radius'' \<notin> set (nearby_errors L req) \<and>
            or_else (parse_Float L (params req ''radius'')) 100 = 100) \<and>
         (\<forall>la lo day.
            params req ''radius'' = None \<and> nearby_errors L req = [] \<and>
            parse_Float L (params req ''latitude'') = Some la \<and>
            parse_Float L (params req ''longitude'') = Some lo \<and>
            (if truthy (params req ''date'') then new_Date L (params req ''date'')
             else Some (now e)) = Some day \<longrightarrow>
            (\<exists>body. nearby L e req s = (json 200 (JObj body), s) \<and>
               map_of body ''crops'' =
                 Some (JArr (map crop_json (findNearby L [lo, la] (100 * 1000) day s)))))"
proof -
  have body: "nearby L e req s' = nearby_body L e req s'" for s'
    using auth by (simp add: nearby_def authenticated)
  have 1: "nearby L e req s = (invalid (nearby_errors L req), s) \<and>
            ''radius'' \<in> set (nearby_errors L req) \<and>
            status (invalid (nearby_errors L req)) = 400 \<and>
            (\<forall>s'. fst (nearby L e req s') = fst (nearby L e req s))"
    if r: "params req ''radius'' = Some r \<and> \<not> isFloat L r (Some 1) None" for r
  proof -
    from r have in_errors: "''radius'' \<in> set (nearby_errors L req)"
      by (simp add: nearby_errors_def check_def optional_def str_def)
    then have ne: "nearby_errors L req \<noteq> []" by auto
    then have "nearby_body L e req s' = (invalid (nearby_errors L req), s')" for s'
      by (simp add: nearby_body_def)
    with in_errors show ?thesis
      by (simp add: body invalid_def json_def)
  qed
  have 2: "''radius'' \<notin> set (nearby_errors L req) \<and>
            or_else (parse_Float L (params req ''radius'')) 100 = 100"
    if "params req ''radius'' = None"
    using that by (simp add: nearby_errors_def check_def optional_def parse_Float_def or_else_def)
  have 3: "\<exists>body. nearby L e req s = (json 200 (JObj body), s) \<and>
               map_of body ''crops'' =
                 Some (JArr (map crop_json (findNearby L [lo, la] (100 * 1000) day s)))"
    if h: "params req ''radius'' = None \<and> nearby_errors L req = [] \<and>
            parse_Float L (params req ''latitude'') = Some la \<and>
            parse_Float L (params req ''longitude'') = Some lo \<and>
            (if truthy (params req ''date'') then new_Date L (params req ''date'')
             else Some (now e)) = Some day" for la lo day
  proof -
    from h have r: "or_else (parse_Float L (params req ''radius'')) 100 = 100"
      by (simp add: parse_Float_def or_else_def)
    from h have "nearby_errors L req = []"
      and "parse_Float L (params req ''latitude'') = Some la"
      and "parse_Float L (params req ''longitude'') = Some lo"
      and "(if truthy (params req ''date'') then new_Date L (params req ''date'')
             else Some (now e)) = Some day"
      by simp_all
    from nearby_valid [OF auth this, of s] show ?thesis
      unfolding r by (intro exI conjI) (assumption, simp)
  qed
  from 1 2 3 show ?thesis by blast
qed

theorem nearby_radius_witness:
  "nearby sample clock (get bee (around @ [(''radius'', ''0'')])) field =
     (invalid [''radius''], field) \<and>
   nearby sample clock (get bee (around @ [(''radius'', ''0.5'')])) field =
     (invalid [''radius''], field) \<and>
   status (invalid [''radius'']) = 400 \<and>
   (\<exists>body. nearby sample clock (get bee around) field = (json 200 (JObj body), field) \<and>
      map_of body ''crops'' =
        Some (JArr (map crop_json (findNearby sample [758 / 10, 269 / 10] 100000 (now clock) field))))"
proof -
  let ?q0 = "get bee (around @ [(''radius'', ''0'')])"
  let ?q1 = "get bee (around @ [(''radius'', ''0.5'')])"
  let ?q2 = "get bee around"
  have r0: "params ?q0 ''radius'' = Some ''0'' \<and> \<not> isFloat sample ''0'' (Some 1) None"
    and r1: "params ?q1 ''radius'' = Some ''0.5'' \<and> \<not> isFloat sample ''0.5'' (Some 1) None"
    by (simp_all add: get_def around_def sample_def numbers_def)
  have e0: "nearby_errors sample ?q0 = [''radius'']"
    and e1: "nearby_errors sample ?q1 = [''radius'']"
    by (simp_all add: nearby_errors_def check_def optional_def get_def around_def str_def
        sample_def numbers_def)
  have h2: "params ?q2 ''radius'' = None \<and> nearby_errors sample ?q2 = [] \<and>
            parse_Float sample (params ?q2 ''latitude'') = Some (269 / 10) \<and>
            parse_Float sample (params ?q2 ''longitude'') = Some (758 / 10) \<and>
            (if truthy (params ?q2 ''date'') then new_Date sample (params ?q2 ''date'')
             else Some (now clock)) = Some (now clock)"
    by (simp add: nearby_errors_Nil parse_Float_def truthy_def get_def around_def str_def
        sample_def numbers_def)
  from nearby_radius [of ?q0 "''bee-token''" sample clock _ field, OF bearer_bee verify_bee] r0
  have 0: "nearby sample clock ?q0 field = (invalid [''radius''], field)"
    unfolding e0 by blast
  from nearby_radius [of ?q1 "''bee-token''" sample clock _ field, OF bearer_bee verify_bee] r1
  have 1: "nearby sample clock ?q1 field = (invalid [''radius''], field)"
    unfolding e1 by blast
  from nearby_radius [of ?q2 "''bee-token''" sample clock _ field, OF bearer_bee verify_bee] h2
  have 2: "\<exists>body. nearby sample clock ?q2 field = (json 200 (JObj body), field) \<and>
      map_of body ''crops'' =
        Some (JArr (map crop_json (findNearby sample [758 / 10, 269 / 10] (100 * 1000) (now clock) field)))"
    by blast
  have 3: "status (invalid [''radius'']) = 400" by (simp add: invalid_def json_def)
  from 0 1 2 3 show ?thesis by simp
qed

end
